theory Spec2Isabelle
  imports Main "HOL-Library.Word"
begin

section \<open>JavaScript strings\<close>

text \<open>
  A JavaScript string is a sequence of UTF-16 code units. The regular expression of the upload
  handler has no \<open>u\<close> flag, so it works on code units one by one; \<open>startsWith\<close> compares code
  units as well. String literals of the source are ASCII and are embedded with \<open>lit\<close>.
\<close>

type_synonym jsstring = "16 word list"

definition lit :: "string \<Rightarrow> jsstring" where
  "lit s = map (\<lambda>c. word_of_nat (of_char c)) s"

text \<open>\<open>String.prototype.startsWith\<close>: the receiver begins with the code units of the argument.\<close>

definition startsWith :: "jsstring \<Rightarrow> jsstring \<Rightarrow> bool" where
  "startsWith s p = (take (length p) s = p)"

text \<open>
  Conversion of an integral JavaScript number to a string, as a template literal does it for
  \<open>Date.now()\<close>: decimal digits, most significant first, with a minus sign below zero.
\<close>

fun dec_nat :: "nat \<Rightarrow> jsstring" where
  "dec_nat n =
     (if n < 10 then [word_of_nat (48 + n)]
      else dec_nat (n div 10) @ [word_of_nat (48 + n mod 10)])"

declare dec_nat.simps [simp del]

definition number_toString :: "int \<Rightarrow> jsstring" where
  "number_toString n = (if n < 0 then lit ''-'' @ dec_nat (nat (- n)) else dec_nat (nat n))"

text \<open>
  What it means for a string to be the decimal numeral of a natural number, stated without
  reference to the conversion above: the string is not empty, all its code units are the
  digits \<open>0\<close> to \<open>9\<close>, it has no leading zero unless it is the single digit, and its value
  in base ten is the number.
\<close>

definition decimal_value :: "jsstring \<Rightarrow> nat" where
  "decimal_value ds = foldl (\<lambda>acc d. 10 * acc + (unat d - 48)) 0 ds"

definition is_decimal_of :: "jsstring \<Rightarrow> nat \<Rightarrow> bool" where
  "is_decimal_of ds n \<longleftrightarrow>
     ds \<noteq> [] \<and> (\<forall>d \<in> set ds. 0x30 \<le> d \<and> d \<le> 0x39) \<and> (1 < length ds \<longrightarrow> hd ds \<noteq> 0x30)
     \<and> decimal_value ds = n"

text \<open>
  Interpolation of a possibly undefined value into a template literal: \<open>undefined\<close> is
  rendered as the text \<open>undefined\<close>.
\<close>

definition template :: "jsstring option \<Rightarrow> jsstring" where
  "template v = (case v of None \<Rightarrow> lit ''undefined'' | Some s \<Rightarrow> s)"

section \<open>The upload request handler (\<open>src/app/api/upload/route.ts\<close>)\<close>

subsection \<open>Data\<close>

text \<open>
  A \<open>File\<close> of the form data: its name, its MIME type, its size in bytes, and the outcome of
  \<open>arrayBuffer()\<close> (\<open>None\<close> when the promise rejects).
\<close>

record File =
  file_name :: jsstring
  file_type :: jsstring
  file_size :: nat
  file_arrayBuffer :: "8 word list option"

text \<open>An entry of the form data is a \<open>File\<close> or a string.\<close>

datatype form_entry = FileEntry File | StringEntry jsstring

text \<open>
  The request: \<open>request.formData()\<close> rejects (\<open>BadBody\<close>) or yields the list of named entries;
  \<open>formData.get\<close> returns the first entry of a name, or \<open>null\<close>.
\<close>

datatype request = BadBody | Form "(jsstring \<times> form_entry) list"

definition formData_get :: "(jsstring \<times> form_entry) list \<Rightarrow> jsstring \<Rightarrow> form_entry option" where
  "formData_get fd k = map_of fd k"

text \<open>The environment variables the handler reads; \<open>None\<close> is an unset variable.\<close>

record env =
  AWS_S3_API_URL :: "jsstring option"
  AWS_S3_BUCKET_NAME :: "jsstring option"
  R2_PUBLIC_URL :: "jsstring option"

record put_object_command =
  Bucket :: "jsstring option"
  Key :: jsstring
  Body :: "8 word list"
  ContentType :: jsstring

text \<open>The JSON bodies the handler answers with, and the response.\<close>

record upload_json =
  success :: bool
  url :: jsstring
  fileName :: jsstring
  type :: jsstring

datatype json = ErrorJson jsstring | UploadJson upload_json

record response =
  status :: nat
  body :: json

text \<open>What can be thrown inside the \<open>try\<close> block.\<close>

datatype exn = FormDataError | TypeError | ArrayBufferError | SendError

text \<open>The effects of the handler that are visible outside it, in the order they happen.\<close>

datatype effect = Send put_object_command | ConsoleError exn

subsection \<open>The handler\<close>

text \<open>The character class \<open>[a-zA-Z0-9.-]\<close> on one code unit.\<close>

definition in_class :: "16 word \<Rightarrow> bool" where
  "in_class c \<longleftrightarrow>
     (0x61 \<le> c \<and> c \<le> 0x7A) \<or> (0x41 \<le> c \<and> c \<le> 0x5A) \<or> (0x30 \<le> c \<and> c \<le> 0x39)
     \<or> c = 0x2E \<or> c = 0x2D"

text \<open>\<open>name.replace(/[^a-zA-Z0-9.-]/g, "_")\<close>\<close>

definition replace_unsafe :: "jsstring \<Rightarrow> jsstring" where
  "replace_unsafe s = concat (map (\<lambda>c. if in_class c then [c] else lit ''_'') s)"

definition isVideo :: "File \<Rightarrow> bool" where
  "isVideo f = startsWith (file_type f) (lit ''video/'')"

definition isImage :: "File \<Rightarrow> bool" where
  "isImage f = startsWith (file_type f) (lit ''image/'')"

definition maxSize :: "File \<Rightarrow> nat" where
  "maxSize f = (if isVideo f then 500 * 1024 * 1024 else 10 * 1024 * 1024)"

definition make_fileName :: "int \<Rightarrow> File \<Rightarrow> jsstring" where
  "make_fileName now f = number_toString now @ lit ''-'' @ replace_unsafe (file_name f)"

definition contentType :: "File \<Rightarrow> jsstring" where
  "contentType f =
     (if file_type f \<noteq> [] then file_type f
      else if isVideo f then lit ''video/mp4'' else lit ''image/jpeg'')"

definition fileUrl :: "env \<Rightarrow> jsstring \<Rightarrow> jsstring" where
  "fileUrl e fname =
     (if R2_PUBLIC_URL e \<noteq> None \<and> R2_PUBLIC_URL e \<noteq> Some []
      then template (R2_PUBLIC_URL e) @ lit ''/'' @ template (AWS_S3_BUCKET_NAME e) @ lit ''/'' @ fname
      else template (AWS_S3_API_URL e) @ lit ''/'' @ template (AWS_S3_BUCKET_NAME e) @ lit ''/'' @ fname)"

text \<open>The \<open>PutObjectCommand\<close> the handler builds for a file whose bytes are \<open>buffer\<close>.\<close>

definition make_command :: "env \<Rightarrow> int \<Rightarrow> File \<Rightarrow> 8 word list \<Rightarrow> put_object_command" where
  "make_command e now f buffer =
     \<lparr>Bucket = AWS_S3_BUCKET_NAME e, Key = make_fileName now f, Body = buffer,
      ContentType = contentType f\<rparr>"

definition bad_request :: "jsstring \<Rightarrow> response" where
  "bad_request msg = \<lparr>status = 400, body = ErrorJson msg\<rparr>"

text \<open>
  The body of the \<open>try\<close> block. \<open>now\<close> is the value of \<open>Date.now()\<close>; \<open>send\<close> tells whether
  \<open>s3Client.send\<close> resolves for a command (it rejects otherwise). A string entry that is not
  empty passes the test \<open>!file\<close>, has no \<open>type\<close> property, and \<open>undefined.startsWith\<close> throws.
\<close>

definition POST_try ::
  "env \<Rightarrow> int \<Rightarrow> (put_object_command \<Rightarrow> bool) \<Rightarrow> request \<Rightarrow> (exn + response) \<times> effect list" where
  "POST_try e now send req =
     (case req of
        BadBody \<Rightarrow> (Inl FormDataError, [])
      | Form fd \<Rightarrow>
         (case formData_get fd (lit ''file'') of
            None \<Rightarrow> (Inr (bad_request (lit ''No file provided'')), [])
          | Some (StringEntry s) \<Rightarrow>
              if s = [] then (Inr (bad_request (lit ''No file provided'')), [])
              else (Inl TypeError, [])
          | Some (FileEntry f) \<Rightarrow>
              if \<not> isImage f \<and> \<not> isVideo f then
                (Inr (bad_request
                   (lit ''Unsupported file type. Only images and videos are allowed.'')), [])
              else if file_size f > maxSize f then
                (Inr (bad_request
                   (lit ''File size exceeds '' @ (if isVideo f then lit ''500MB'' else lit ''10MB'')
                      @ lit '' limit'')), [])
              else
                (case file_arrayBuffer f of
                   None \<Rightarrow> (Inl ArrayBufferError, [])
                 | Some buffer \<Rightarrow>
                     let command = make_command e now f buffer
                     in if send command then
                          (Inr \<lparr>status = 200,
                                body = UploadJson
                                  \<lparr>success = True, url = fileUrl e (make_fileName now f),
                                   fileName = make_fileName now f,
                                   type = (if isVideo f then lit ''video'' else lit ''image'')\<rparr>\<rparr>,
                           [Send command])
                        else (Inl SendError, [Send command]))))"

text \<open>The handler: the \<open>catch\<close> clause logs the error and answers with status 500.\<close>

definition POST ::
  "env \<Rightarrow> int \<Rightarrow> (put_object_command \<Rightarrow> bool) \<Rightarrow> request \<Rightarrow> response \<times> effect list" where
  "POST e now send req =
     (case POST_try e now send req of
        (Inr r, effs) \<Rightarrow> (r, effs)
      | (Inl x, effs) \<Rightarrow>
          (\<lparr>status = 500, body = ErrorJson (lit ''Failed to upload file'')\<rparr>,
           effs @ [ConsoleError x]))"

section \<open>The uploaded-files list and local storage\<close>

text \<open>
  The pages keep the list of uploaded files in component state and in the browser's local
  storage. A record of the list is an \<open>UploadedFile\<close>; its \<open>type\<close> field is optional.
\<close>

record UploadedFile =
  uf_id :: jsstring
  uf_url :: jsstring
  uf_name :: jsstring
  uf_type :: "jsstring option"

definition STORAGE_KEY :: jsstring where
  "STORAGE_KEY = lit ''r2-uploaded-files''"

text \<open>
  A page: the \<open>uploadedFiles\<close> state of the page component and the local storage of the browser,
  a map from keys to stored strings (\<open>setItem\<close> is taken to succeed). \<open>JSON.stringify\<close> is the
  built-in function and is a parameter \<open>stringify\<close> of what follows.
\<close>

record page =
  uploadedFiles :: "UploadedFile list"
  localStorage :: "jsstring \<rightharpoonup> jsstring"

subsection \<open>\<open>src/app/upload/page.tsx\<close>\<close>

text \<open>The effect that depends on \<open>uploadedFiles\<close>; it runs after every change of that state.\<close>

definition UploadPage_effect :: "(UploadedFile list \<Rightarrow> jsstring) \<Rightarrow> page \<Rightarrow> page" where
  "UploadPage_effect stringify p =
     (if length (uploadedFiles p) > 0
      then p\<lparr>localStorage := (localStorage p)(STORAGE_KEY \<mapsto> stringify (uploadedFiles p))\<rparr>
      else p\<lparr>localStorage := (localStorage p)(STORAGE_KEY := None)\<rparr>)"

definition handleUploadComplete ::
  "(UploadedFile list \<Rightarrow> jsstring) \<Rightarrow> UploadedFile list \<Rightarrow> page \<Rightarrow> page" where
  "handleUploadComplete stringify files p = UploadPage_effect stringify (p\<lparr>uploadedFiles := files\<rparr>)"

subsection \<open>\<open>src/components/multiple_files.tsx\<close>\<close>

text \<open>
  The record \<open>uploadFile\<close> builds from the JSON of a successful response, and the two updates
  of the component's own list \<open>prev\<close>; each hands the updated list to \<open>onUploadComplete\<close>.
\<close>

definition uploadedFile_of :: "upload_json \<Rightarrow> File \<Rightarrow> jsstring \<Rightarrow> UploadedFile" where
  "uploadedFile_of data f fileId =
     \<lparr>uf_id = fileId, uf_url = url data, uf_name = file_name f,
      uf_type = Some (if type data \<noteq> [] then type data
                      else if startsWith (file_type f) (lit ''video/'') then lit ''video''
                      else lit ''image'')\<rparr>"

definition uploadFile_done ::
  "(UploadedFile list \<Rightarrow> 's \<Rightarrow> 's) \<Rightarrow> UploadedFile \<Rightarrow> UploadedFile list \<times> 's
     \<Rightarrow> UploadedFile list \<times> 's" where
  "uploadFile_done onUploadComplete uploadedFile st =
     (case st of (prev, s) \<Rightarrow>
        let updated = prev @ [uploadedFile] in (updated, onUploadComplete updated s))"

definition MultipleFileUpload_handleRemove ::
  "(UploadedFile list \<Rightarrow> 's \<Rightarrow> 's) \<Rightarrow> jsstring \<Rightarrow> UploadedFile list \<times> 's
     \<Rightarrow> UploadedFile list \<times> 's" where
  "MultipleFileUpload_handleRemove onUploadComplete fileId st =
     (case st of (prev, s) \<Rightarrow>
        let updated = filter (\<lambda>f. uf_id f \<noteq> fileId) prev in (updated, onUploadComplete updated s))"

subsection \<open>The gallery page\<close>

definition GalleryPage_handleRemove ::
  "(UploadedFile list \<Rightarrow> jsstring) \<Rightarrow> jsstring \<Rightarrow> page \<Rightarrow> page" where
  "GalleryPage_handleRemove stringify fileId p =
     (let updated = filter (\<lambda>f. uf_id f \<noteq> fileId) (uploadedFiles p)
      in if length updated > 0
         then p\<lparr>uploadedFiles := updated,
                localStorage := (localStorage p)(STORAGE_KEY \<mapsto> stringify updated)\<rparr>
         else p\<lparr>uploadedFiles := updated,
                localStorage := (localStorage p)(STORAGE_KEY := None)\<rparr>)"

datatype filter_tab = FilterAll | FilterImage | FilterVideo

definition filteredFiles :: "filter_tab \<Rightarrow> UploadedFile list \<Rightarrow> UploadedFile list" where
  "filteredFiles flt files =
     filter (\<lambda>f. case flt of
                    FilterAll \<Rightarrow> True
                  | FilterImage \<Rightarrow> uf_type f \<noteq> Some (lit ''video'')
                  | FilterVideo \<Rightarrow> uf_type f = Some (lit ''video'')) files"

definition imageCount :: "UploadedFile list \<Rightarrow> nat" where
  "imageCount files = length (filter (\<lambda>f. uf_type f \<noteq> Some (lit ''video'')) files)"

definition videoCount :: "UploadedFile list \<Rightarrow> nat" where
  "videoCount files = length (filter (\<lambda>f. uf_type f = Some (lit ''video'')) files)"

section \<open>The video player\<close>

text \<open>
  The state of the \<open>VideoPlayer\<close> component. The numbers (\<open>volume\<close>, \<open>played\<close>, \<open>duration\<close>) are
  kept in a type parameter: nothing below computes with them.
\<close>

record VideoPlayerProps =
  video_url :: jsstring
  thumbnail :: "jsstring option"
  autoPlay :: bool

record 'n player =
  isPlaying :: bool
  showControls :: bool
  isMuted :: bool
  volume :: 'n
  played :: 'n
  duration :: 'n
  showThumbnail :: bool
  error :: "jsstring option"
  isReady :: bool

definition initial_player :: "'n \<Rightarrow> 'n \<Rightarrow> VideoPlayerProps \<Rightarrow> 'n player" where
  "initial_player zero one props =
     \<lparr>isPlaying = autoPlay props, showControls = False, isMuted = autoPlay props, volume = one,
      played = zero, duration = zero, showThumbnail = True, error = None, isReady = False\<rparr>"

text \<open>The listeners of the media element and the callbacks of the \<open>video\<close> tag.\<close>

text \<open>\<open>handlePlay\<close> is followed by the effect on \<open>isPlaying\<close>, which hides the thumbnail.\<close>

definition handlePlay :: "'n player \<Rightarrow> 'n player" where
  "handlePlay s = s\<lparr>isPlaying := True, showThumbnail := False\<rparr>"

definition handlePause :: "'n player \<Rightarrow> 'n player" where
  "handlePause s = s\<lparr>isPlaying := False\<rparr>"

definition handleError :: "'n player \<Rightarrow> 'n player" where
  "handleError s =
     s\<lparr>error := Some (lit ''Failed to load video. Please try opening it in a new tab.''),
       isPlaying := False\<rparr>"

definition onError :: "'n player \<Rightarrow> 'n player" where
  "onError s =
     s\<lparr>error := Some (lit ''Failed to load video. Please try opening it in a new tab.''),
       isPlaying := False\<rparr>"

definition onLoadedData :: "'n player \<Rightarrow> 'n player" where
  "onLoadedData s = s\<lparr>isReady := True, error := None\<rparr>"

definition handleLoadedMetadata :: "'n \<Rightarrow> 'n player \<Rightarrow> 'n player" where
  "handleLoadedMetadata d s = s\<lparr>duration := d, isReady := True\<rparr>"

text \<open>The effect that depends on \<open>url\<close>, and the assignment of a new \<open>url\<close> prop that triggers it.\<close>

definition url_effect :: "'n player \<Rightarrow> 'n player" where
  "url_effect s = s\<lparr>error := None, isReady := False\<rparr>"

definition set_url :: "jsstring \<Rightarrow> VideoPlayerProps \<times> 'n player \<Rightarrow> VideoPlayerProps \<times> 'n player" where
  "set_url u ps =
     (case ps of (props, s) \<Rightarrow>
        if u = video_url props then (props, s) else (props\<lparr>video_url := u\<rparr>, url_effect s))"

text \<open>
  What the component renders: the placeholder without a source, the fallback with the link
  (\<open>href\<close>, \<open>target\<close>) when \<open>error\<close> is a non-empty string, the player otherwise, with the
  loading overlay while the video is not ready.
\<close>

datatype view =
    NoVideoSource
  | ErrorFallback (message: jsstring) (href: jsstring) (target: jsstring)
  | PlayerView (src: jsstring) (loading: bool)

definition truthy :: "jsstring option \<Rightarrow> bool" where
  "truthy v = (case v of None \<Rightarrow> False | Some s \<Rightarrow> s \<noteq> [])"

definition render :: "VideoPlayerProps \<Rightarrow> 'n player \<Rightarrow> view" where
  "render props s =
     (if video_url props = [] then NoVideoSource
      else (case error s of
              Some msg \<Rightarrow>
                if msg \<noteq> [] then ErrorFallback msg (video_url props) (lit ''_blank'')
                else PlayerView (video_url props) (\<not> isReady s \<and> \<not> truthy (error s))
            | None \<Rightarrow> PlayerView (video_url props) (\<not> isReady s \<and> \<not> truthy (error s))))"

section \<open>Facts about strings\<close>

lemma unat_code_unit: "unat (word_of_nat (of_char c) :: 16 word) = of_char c"
proof -
  have "(of_char c :: nat) < 65536"
    using nat_of_char_less_256 [of c] by linarith
  then show ?thesis
    by (simp add: unat_of_nat take_bit_nat_eq_self)
qed

lemma code_unit_inj:
  "(word_of_nat (of_char c) :: 16 word) = word_of_nat (of_char d) \<longleftrightarrow> c = d"
proof
  assume "(word_of_nat (of_char c) :: 16 word) = word_of_nat (of_char d)"
  then have "unat (word_of_nat (of_char c) :: 16 word) = unat (word_of_nat (of_char d) :: 16 word)"
    by (rule arg_cong)
  then have "(of_char c :: nat) = of_char d"
    by (simp only: unat_code_unit)
  then show "c = d"
    by simp
qed simp

lemma lit_eq_iff [simp]: "lit a = lit b \<longleftrightarrow> a = b"
  unfolding lit_def by (simp add: inj_def code_unit_inj)

lemma lit_Nil [simp]: "lit [] = []"
  by (simp add: lit_def)

lemma lit_eq_Nil_iff [simp]: "lit s = [] \<longleftrightarrow> s = []"
  by (simp add: lit_def)

lemma Nil_eq_lit_iff [simp]: "[] = lit s \<longleftrightarrow> s = []"
  by (auto simp: lit_def)

lemma length_lit [simp]: "length (lit s) = length s"
  by (simp add: lit_def)

lemma lit_append: "lit (a @ b) = lit a @ lit b"
  by (simp add: lit_def)

section \<open>Decimal numerals\<close>

lemma unat_digit: "k < 10 \<Longrightarrow> unat (word_of_nat (48 + k) :: 16 word) = 48 + k"
proof -
  assume "k < 10"
  then have "48 + k < 2 ^ LENGTH(16)" by simp
  then show ?thesis
    by (rule of_nat_inverse [OF refl])
qed

lemma digit_range:
  assumes "k < 10"
  shows "(0x30 :: 16 word) \<le> word_of_nat (48 + k) \<and> (word_of_nat (48 + k) :: 16 word) \<le> 0x39"
proof -
  have "unat (0x30 :: 16 word) = 48" "unat (0x39 :: 16 word) = 57" by simp_all
  then show ?thesis
    using assms unfolding word_le_nat_alt unat_digit [OF assms] by simp
qed

lemma decimal_value_snoc:
  "decimal_value (ds @ [d]) = 10 * decimal_value ds + (unat d - 48)"
  by (simp add: decimal_value_def)

lemma dec_nat_not_Nil: "dec_nat n \<noteq> []"
  by (subst dec_nat.simps) simp

lemma dec_nat_digits: "\<forall>d \<in> set (dec_nat n). 0x30 \<le> d \<and> d \<le> 0x39"
proof (induction n rule: dec_nat.induct)
  case (1 n)
  show ?case
  proof (cases "n < 10")
    case True
    have "dec_nat n = [word_of_nat (48 + n)]"
      using True by (subst dec_nat.simps) (simp only: if_True)
    then show ?thesis using digit_range [OF True] by (simp only: list.set ball_simps) 
  next
    case False
    have eq: "dec_nat n = dec_nat (n div 10) @ [word_of_nat (48 + n mod 10)]"
      using False by (subst dec_nat.simps) (simp only: if_False)
    have "n mod 10 < 10" by simp
    from digit_range [OF this] "1.IH" [OF False] show ?thesis
      unfolding eq by (simp only: set_append list.set ball_Un ball_simps)
  qed
qed

lemma dec_nat_value: "decimal_value (dec_nat n) = n"
proof (induction n rule: dec_nat.induct)
  case (1 n)
  show ?case
  proof (cases "n < 10")
    case True
    have "dec_nat n = [word_of_nat (48 + n)]"
      using True by (subst dec_nat.simps) (simp only: if_True)
    then have "decimal_value (dec_nat n) = unat (word_of_nat (48 + n) :: 16 word) - 48"
      by (simp add: decimal_value_def)
    then show ?thesis by (simp only: unat_digit [OF True] add_diff_cancel_left')
  next
    case False
    have eq: "dec_nat n = dec_nat (n div 10) @ [word_of_nat (48 + n mod 10)]"
      using False by (subst dec_nat.simps) (simp only: if_False)
    have m: "n mod 10 < 10" by simp
    have "decimal_value (dec_nat n) = 10 * (n div 10) + (unat (word_of_nat (48 + n mod 10) :: 16 word) - 48)"
      unfolding eq decimal_value_snoc using "1.IH" [OF False] by (simp only:)
    then show ?thesis by (simp only: unat_digit [OF m]) simp
  qed
qed

lemma dec_nat_hd: "0 < n \<Longrightarrow> hd (dec_nat n) \<noteq> 0x30"
proof (induction n rule: dec_nat.induct)
  case (1 n)
  show ?case
  proof (cases "n < 10")
    case True
    have eq: "dec_nat n = [word_of_nat (48 + n)]"
      using True by (subst dec_nat.simps) (simp only: if_True)
    show ?thesis
    proof
      assume "hd (dec_nat n) = 0x30"
      then have "(word_of_nat (48 + n) :: 16 word) = 0x30"
        unfolding eq by (simp only: list.sel)
      then have "unat (word_of_nat (48 + n) :: 16 word) = unat (0x30 :: 16 word)"
        by (rule arg_cong)
      then have "48 + n = 48"
        by (simp only: unat_digit [OF True]) simp
      with "1.prems" show False by simp
    qed
  next
    case False
    have eq: "dec_nat n = dec_nat (n div 10) @ [word_of_nat (48 + n mod 10)]"
      using False by (subst dec_nat.simps) (simp only: if_False)
    have "0 < n div 10" using False by simp
    from "1.IH" [OF False this] show ?thesis
      unfolding eq by (simp add: dec_nat_not_Nil)
  qed
qed

lemma dec_nat_length_1: "n < 10 \<Longrightarrow> length (dec_nat n) = 1"
  by (subst dec_nat.simps) simp

lemma dec_nat_is_decimal: "is_decimal_of (dec_nat n) n"
proof -
  have "1 < length (dec_nat n) \<longrightarrow> hd (dec_nat n) \<noteq> 0x30"
  proof
    assume "1 < length (dec_nat n)"
    then have "\<not> n < 10" using dec_nat_length_1 [of n] by auto
    then have "0 < n" by simp
    then show "hd (dec_nat n) \<noteq> 0x30" by (rule dec_nat_hd)
  qed
  then show ?thesis
    unfolding is_decimal_of_def
    using dec_nat_not_Nil [of n] dec_nat_digits [of n] dec_nat_value [of n] by blast
qed

lemma digit_unat:
  assumes "(0x30 :: 16 word) \<le> d" "d \<le> 0x39"
  shows "unat d - 48 < 10" "48 \<le> unat d" "word_of_nat (48 + (unat d - 48)) = d"
proof -
  have "unat (0x30 :: 16 word) \<le> unat d" "unat d \<le> unat (0x39 :: 16 word)"
    using assms by (simp_all only: word_le_nat_alt)
  then have r: "48 \<le> unat d" "unat d \<le> 57" by simp_all
  then show "unat d - 48 < 10" "48 \<le> unat d" by simp_all
  from r have "48 + (unat d - 48) = unat d" by simp
  then show "word_of_nat (48 + (unat d - 48)) = d" by simp
qed

lemma foldl_decimal_pos:
  "0 < a \<Longrightarrow> 0 < foldl (\<lambda>acc d. 10 * acc + (unat (d :: 16 word) - 48)) a ds"
  by (induction ds arbitrary: a) simp_all

lemma decimal_value_pos:
  assumes "ds \<noteq> []" "\<forall>d \<in> set ds. 0x30 \<le> d \<and> d \<le> 0x39" "hd ds \<noteq> 0x30"
  shows "0 < decimal_value ds"
proof (cases ds)
  case Nil
  with assms show ?thesis by simp
next
  case (Cons x xs)
  have "48 \<le> unat x" using assms(2) Cons digit_unat(2) [of x] by simp
  moreover have "unat x \<noteq> 48"
  proof
    assume "unat x = 48"
    then have "unat x = unat (0x30 :: 16 word)" by simp
    then have "x = 0x30" by (simp only: word_unat_eq_iff)
    with assms(3) Cons show False by simp
  qed
  ultimately have "0 < unat x - 48" by simp
  then show ?thesis
    unfolding Cons decimal_value_def by (simp add: foldl_decimal_pos)
qed

lemma decimal_unique: "is_decimal_of ds n \<Longrightarrow> ds = dec_nat n"
proof (induction ds arbitrary: n rule: rev_induct)
  case Nil
  then show ?case by (simp add: is_decimal_of_def)
next
  case (snoc d xs)
  from snoc.prems have dig: "0x30 \<le> d" "d \<le> 0x39"
    and digs: "\<forall>x \<in> set xs. 0x30 \<le> x \<and> x \<le> 0x39"
    and lead: "1 < length (xs @ [d]) \<longrightarrow> hd (xs @ [d]) \<noteq> 0x30"
    and val: "decimal_value (xs @ [d]) = n"
    by (simp_all add: is_decimal_of_def)
  let ?k = "unat d - 48"
  have k: "?k < 10" and same: "word_of_nat (48 + ?k) = d"
    using digit_unat [OF dig] by simp_all
  have n: "n = 10 * decimal_value xs + ?k"
    using val by (simp only: decimal_value_snoc)
  show ?case
  proof (cases "xs = []")
    case True
    then have "n = ?k" using n by (simp add: decimal_value_def)
    then have "dec_nat n = [d]"
      using k same by (subst dec_nat.simps) simp
    with True show ?thesis by simp
  next
    case False
    then have hd: "hd xs \<noteq> 0x30" using lead by (cases xs) simp_all
    have "is_decimal_of xs (decimal_value xs)"
      using False digs hd by (simp add: is_decimal_of_def)
    then have xs: "xs = dec_nat (decimal_value xs)" by (rule snoc.IH)
    have pos: "0 < decimal_value xs" using False digs hd by (rule decimal_value_pos)
    have "\<not> n < 10" "n div 10 = decimal_value xs" "n mod 10 = ?k"
      using n k pos by simp_all
    then have "dec_nat n = dec_nat (decimal_value xs) @ [word_of_nat (48 + ?k)]"
      by (subst dec_nat.simps) (simp only: if_False)
    with xs same show ?thesis by simp
  qed
qed

lemma decimal_numeral_unique: "is_decimal_of a n \<Longrightarrow> is_decimal_of b n \<Longrightarrow> a = b"
  using decimal_unique [of a n] decimal_unique [of b n] by simp

lemma number_toString_decimal:
  "if 0 \<le> now then is_decimal_of (number_toString now) (nat now)
   else hd (number_toString now) = 0x2D \<and> is_decimal_of (tl (number_toString now)) (nat (- now))"
  by (simp add: number_toString_def dec_nat_is_decimal lit_def)

section \<open>The upload handler, case by case\<close>

lemma take_lit [simp]: "take n (lit s) = lit (take n s)"
  by (simp add: lit_def take_map)

lemma POST_BadBody:
  "POST e now send BadBody =
     (\<lparr>status = 500, body = ErrorJson (lit ''Failed to upload file'')\<rparr>, [ConsoleError FormDataError])"
  by (simp add: POST_def POST_try_def)

lemma POST_no_entry:
  "formData_get fd (lit ''file'') = None \<Longrightarrow>
   POST e now send (Form fd) = (bad_request (lit ''No file provided''), [])"
  by (simp add: POST_def POST_try_def)

lemma POST_string_entry:
  "formData_get fd (lit ''file'') = Some (StringEntry s) \<Longrightarrow>
   POST e now send (Form fd) =
     (if s = [] then (bad_request (lit ''No file provided''), [])
      else (\<lparr>status = 500, body = ErrorJson (lit ''Failed to upload file'')\<rparr>, [ConsoleError TypeError]))"
  by (simp add: POST_def POST_try_def)

lemma POST_file_entry:
  "formData_get fd (lit ''file'') = Some (FileEntry f) \<Longrightarrow>
   POST e now send (Form fd) =
     (if \<not> isImage f \<and> \<not> isVideo f then
        (bad_request (lit ''Unsupported file type. Only images and videos are allowed.''), [])
      else if file_size f > maxSize f then
        (bad_request (lit ''File size exceeds '' @ (if isVideo f then lit ''500MB'' else lit ''10MB'')
                      @ lit '' limit''), [])
      else (case file_arrayBuffer f of
              None \<Rightarrow> (\<lparr>status = 500, body = ErrorJson (lit ''Failed to upload file'')\<rparr>,
                        [ConsoleError ArrayBufferError])
            | Some buffer \<Rightarrow>
                if send (make_command e now f buffer) then
                  (\<lparr>status = 200,
                    body = UploadJson
                      \<lparr>success = True, url = fileUrl e (make_fileName now f),
                       fileName = make_fileName now f,
                       type = (if isVideo f then lit ''video'' else lit ''image'')\<rparr>\<rparr>,
                   [Send (make_command e now f buffer)])
                else (\<lparr>status = 500, body = ErrorJson (lit ''Failed to upload file'')\<rparr>,
                      [Send (make_command e now f buffer), ConsoleError SendError])))"
  by (simp add: POST_def POST_try_def Let_def split: option.splits)

lemma size_message [simp]:
  "lit ''File size exceeds '' @ lit ''500MB'' @ lit '' limit'' = lit ''File size exceeds 500MB limit''"
  "lit ''File size exceeds '' @ lit ''10MB'' @ lit '' limit'' = lit ''File size exceeds 10MB limit''"
  by (simp_all add: lit_def)

lemma replace_unsafe_map:
  "replace_unsafe s = map (\<lambda>c. if in_class c then c else 0x5F) s"
  by (induction s) (simp_all add: replace_unsafe_def lit_def)

text \<open>The handler on a request with a single \<open>file\<close> entry, and a worked example.\<close>

lemma lit_join:
  "lit a @ lit b = lit (a @ b)"
  "lit a @ lit b @ r = lit (a @ b) @ r"
  by (simp_all add: lit_def)

lemma POST_single_file:
  "POST e now send (Form [(lit ''file'', FileEntry f)]) =
     (if \<not> isImage f \<and> \<not> isVideo f then
        (bad_request (lit ''Unsupported file type. Only images and videos are allowed.''), [])
      else if file_size f > maxSize f then
        (bad_request (lit ''File size exceeds '' @ (if isVideo f then lit ''500MB'' else lit ''10MB'')
                      @ lit '' limit''), [])
      else (case file_arrayBuffer f of
              None \<Rightarrow> (\<lparr>status = 500, body = ErrorJson (lit ''Failed to upload file'')\<rparr>,
                        [ConsoleError ArrayBufferError])
            | Some buffer \<Rightarrow>
                if send (make_command e now f buffer) then
                  (\<lparr>status = 200,
                    body = UploadJson
                      \<lparr>success = True, url = fileUrl e (make_fileName now f),
                       fileName = make_fileName now f,
                       type = (if isVideo f then lit ''video'' else lit ''image'')\<rparr>\<rparr>,
                   [Send (make_command e now f buffer)])
                else (\<lparr>status = 500, body = ErrorJson (lit ''Failed to upload file'')\<rparr>,
                      [Send (make_command e now f buffer), ConsoleError SendError])))"
  by (rule POST_file_entry) (simp add: formData_get_def)

lemma example_types:
  "\<not> startsWith (lit ''text/plain'') (lit ''image/'')"
  "\<not> startsWith (lit ''text/plain'') (lit ''video/'')"
  "startsWith (lit ''image/png'') (lit ''image/'')"
  "\<not> startsWith (lit ''image/png'') (lit ''video/'')"
  "startsWith (lit ''video/mp4'') (lit ''video/'')"
  "\<not> startsWith (lit ''video/mp4'') (lit ''image/'')"
  by (simp_all add: startsWith_def)

lemma example_key:
  "number_toString 5 @ lit ''-'' @ replace_unsafe (lit ''a b.png'') = lit ''5-a_b.png''"
  by (simp add: number_toString_def dec_nat.simps replace_unsafe_map in_class_def lit_def)

lemma example_png_POST:
  "file_size f \<le> 10485760 \<Longrightarrow> file_name f = lit ''a b.png'' \<Longrightarrow> file_type f = lit ''image/png'' \<Longrightarrow>
   file_arrayBuffer f = Some b \<Longrightarrow>
   POST e 5 send (Form [(lit ''file'', FileEntry f)]) =
     (let c = \<lparr>Bucket = AWS_S3_BUCKET_NAME e, Key = lit ''5-a_b.png'', Body = b,
               ContentType = lit ''image/png''\<rparr>
      in if send c then
           (\<lparr>status = 200,
             body = UploadJson \<lparr>success = True, url = fileUrl e (lit ''5-a_b.png''),
                                fileName = lit ''5-a_b.png'', type = lit ''image''\<rparr>\<rparr>, [Send c])
         else (\<lparr>status = 500, body = ErrorJson (lit ''Failed to upload file'')\<rparr>,
               [Send c, ConsoleError SendError]))"
  by (simp add: POST_single_file isImage_def isVideo_def example_types maxSize_def
      make_command_def make_fileName_def example_key contentType_def Let_def)

section \<open>Properties of the upload handler\<close>

text \<open>
  C1. Whenever a validation of the upload handler fails (the form data has no \<open>file\<close> entry, the
  MIME type of the file starts with neither \<open>image/\<close> nor \<open>video/\<close>, or the size of the file
  exceeds its limit), the response has status 400 and no \<open>PutObjectCommand\<close> is sent. A command
  is sent only for a file that is present, of a supported type and within its size limit.
\<close>

theorem upload_validation_failure_no_store_write:
  "((\<exists>fd. req = Form fd \<and>
        (formData_get fd (lit ''file'') = None \<or>
         (\<exists>f. formData_get fd (lit ''file'') = Some (FileEntry f) \<and>
              (\<not> startsWith (file_type f) (lit ''image/'') \<and> \<not> startsWith (file_type f) (lit ''video/'')
               \<or> maxSize f < file_size f))))
     \<longrightarrow> status (fst (POST e now send req)) = 400 \<and> (\<forall>c. Send c \<notin> set (snd (POST e now send req))))
   \<and> (\<forall>c. Send c \<in> set (snd (POST e now send req)) \<longrightarrow>
         (\<exists>fd f. req = Form fd \<and> formData_get fd (lit ''file'') = Some (FileEntry f) \<and>
             (startsWith (file_type f) (lit ''image/'') \<or> startsWith (file_type f) (lit ''video/''))
             \<and> file_size f \<le> maxSize f))"
proof (cases req)
  case BadBody
  then show ?thesis by (simp add: POST_BadBody)
next
  case (Form fd)
  show ?thesis
  proof (cases "formData_get fd (lit ''file'')")
    case None
    then show ?thesis using Form by (simp add: POST_no_entry bad_request_def)
  next
    case (Some en)
    show ?thesis
    proof (cases en)
      case (StringEntry s)
      then show ?thesis using Form Some by (simp add: POST_string_entry bad_request_def)
    next
      case (FileEntry f)
      then show ?thesis using Form Some
        by (auto simp add: POST_file_entry bad_request_def isImage_def isVideo_def split: option.splits)
    qed
  qed
qed

theorem upload_validation_failure_no_store_write_witness:
  "status (fst (POST \<lparr>AWS_S3_API_URL = Some (lit ''https://s3.example''),
        AWS_S3_BUCKET_NAME = Some (lit ''media''), R2_PUBLIC_URL = None\<rparr> 5 (\<lambda>c. True)
      (Form [(lit ''file'', FileEntry
        \<lparr>file_name = lit ''a.txt'', file_type = lit ''text/plain'',
        file_size = 3, file_arrayBuffer = Some [1, 2, 3]\<rparr>)]))) = 400
   \<and> Send \<lparr>Bucket = Some (lit ''media''), Key = lit ''5-a_b.png'', Body = [1, 2, 3],
        ContentType = lit ''image/png''\<rparr>
       \<in> set (snd (POST \<lparr>AWS_S3_API_URL = Some (lit ''https://s3.example''),
        AWS_S3_BUCKET_NAME = Some (lit ''media''), R2_PUBLIC_URL = None\<rparr> 5 (\<lambda>c. True)
      (Form [(lit ''file'', FileEntry
        \<lparr>file_name = lit ''a b.png'', file_type = lit ''image/png'',
        file_size = 3, file_arrayBuffer = Some [1, 2, 3]\<rparr>)])))
   \<and> (\<exists>fd f. Form [(lit ''file'', FileEntry \<lparr>file_name = lit ''a b.png'', file_type = lit ''image/png'',
        file_size = 3, file_arrayBuffer = Some [1, 2, 3]\<rparr>)] = Form fd
         \<and> formData_get fd (lit ''file'') = Some (FileEntry f)
         \<and> (startsWith (file_type f) (lit ''image/'') \<or> startsWith (file_type f) (lit ''video/''))
         \<and> file_size f \<le> maxSize f)"
proof -
  let ?e = "\<lparr>AWS_S3_API_URL = Some (lit ''https://s3.example''),
        AWS_S3_BUCKET_NAME = Some (lit ''media''), R2_PUBLIC_URL = None\<rparr>"
  let ?txt = "\<lparr>file_name = lit ''a.txt'', file_type = lit ''text/plain'',
        file_size = 3, file_arrayBuffer = Some [1, 2, 3]\<rparr>"
  let ?png = "\<lparr>file_name = lit ''a b.png'', file_type = lit ''image/png'',
        file_size = 3, file_arrayBuffer = Some [1, 2, 3]\<rparr>"
  let ?c = "\<lparr>Bucket = Some (lit ''media''), Key = lit ''5-a_b.png'', Body = [1, 2, 3],
        ContentType = lit ''image/png''\<rparr>"
  have get: "formData_get [(lit ''file'', FileEntry ?txt)] (lit ''file'') = Some (FileEntry ?txt)"
    by (simp add: formData_get_def)
  have sent: "Send ?c \<in> set (snd (POST ?e 5 (\<lambda>c. True) (Form [(lit ''file'', FileEntry ?png)])))"
    by (simp add: example_png_POST)
  from upload_validation_failure_no_store_write
         [of "Form [(lit ''file'', FileEntry ?txt)]" ?e 5 "\<lambda>c. True"] get
  have rejected: "status (fst (POST ?e 5 (\<lambda>c. True) (Form [(lit ''file'', FileEntry ?txt)]))) = 400"
    by (simp add: example_types)
  from upload_validation_failure_no_store_write
         [of "Form [(lit ''file'', FileEntry ?png)]" ?e 5 "\<lambda>c. True"] sent
  have "\<exists>fd f. Form [(lit ''file'', FileEntry ?png)] = Form fd
         \<and> formData_get fd (lit ''file'') = Some (FileEntry f)
         \<and> (startsWith (file_type f) (lit ''image/'') \<or> startsWith (file_type f) (lit ''video/''))
         \<and> file_size f \<le> maxSize f"
    by blast
  with rejected sent show ?thesis by blast
qed

text \<open>
  C2. The handler answers with status 400 and the message
  \<open>Unsupported file type. Only images and videos are allowed.\<close> exactly when the form data holds
  a file whose MIME type starts with neither \<open>video/\<close> nor \<open>image/\<close>.
\<close>

theorem upload_unsupported_type_iff:
  "(status (fst (POST e now send req)) = 400 \<and>
    body (fst (POST e now send req)) =
      ErrorJson (lit ''Unsupported file type. Only images and videos are allowed.''))
   \<longleftrightarrow>
   (\<exists>fd f. req = Form fd \<and> formData_get fd (lit ''file'') = Some (FileEntry f) \<and>
      \<not> startsWith (file_type f) (lit ''video/'') \<and> \<not> startsWith (file_type f) (lit ''image/''))"
proof (cases req)
  case BadBody
  then show ?thesis by (simp add: POST_BadBody)
next
  case (Form fd)
  show ?thesis
  proof (cases "formData_get fd (lit ''file'')")
    case None
    then show ?thesis using Form by (simp add: POST_no_entry bad_request_def)
  next
    case (Some en)
    show ?thesis
    proof (cases en)
      case (StringEntry s)
      then show ?thesis using Form Some by (simp add: POST_string_entry bad_request_def)
    next
      case (FileEntry f)
      then show ?thesis using Form Some
        by (auto simp add: POST_file_entry bad_request_def isImage_def isVideo_def
            split: option.splits)
    qed
  qed
qed

theorem upload_unsupported_type_iff_witness:
  "status (fst (POST \<lparr>AWS_S3_API_URL = Some (lit ''https://s3.example''),
        AWS_S3_BUCKET_NAME = Some (lit ''media''), R2_PUBLIC_URL = None\<rparr> 5 (\<lambda>c. True)
      (Form [(lit ''file'', FileEntry
        \<lparr>file_name = lit ''a.txt'', file_type = lit ''text/plain'',
        file_size = 3, file_arrayBuffer = Some [1, 2, 3]\<rparr>)]))) = 400
   \<and> body (fst (POST \<lparr>AWS_S3_API_URL = Some (lit ''https://s3.example''),
        AWS_S3_BUCKET_NAME = Some (lit ''media''), R2_PUBLIC_URL = None\<rparr> 5 (\<lambda>c. True)
      (Form [(lit ''file'', FileEntry
        \<lparr>file_name = lit ''a.txt'', file_type = lit ''text/plain'',
        file_size = 3, file_arrayBuffer = Some [1, 2, 3]\<rparr>)]))) =
      ErrorJson (lit ''Unsupported file type. Only images and videos are allowed.'')"
  using upload_unsupported_type_iff
          [of "\<lparr>AWS_S3_API_URL = Some (lit ''https://s3.example''),
        AWS_S3_BUCKET_NAME = Some (lit ''media''), R2_PUBLIC_URL = None\<rparr>" 5 "\<lambda>c. True"
              "Form [(lit ''file'', FileEntry
        \<lparr>file_name = lit ''a.txt'', file_type = lit ''text/plain'',
        file_size = 3, file_arrayBuffer = Some [1, 2, 3]\<rparr>)]"]
  by (simp add: formData_get_def example_types)

text \<open>
  C3. For a file that is present and of a supported type, the handler answers with status 400
  exactly when the size is strictly above 500 * 1024 * 1024 bytes for a MIME type that starts
  with \<open>video/\<close> and above 10 * 1024 * 1024 bytes otherwise; the message then names the limit
  (\<open>500MB\<close> or \<open>10MB\<close>), and a file whose size equals the limit is not rejected.
\<close>

theorem upload_size_limit_iff:
  assumes "formData_get fd (lit ''file'') = Some (FileEntry f)"
    and "startsWith (file_type f) (lit ''video/'') \<or> startsWith (file_type f) (lit ''image/'')"
  shows "(status (fst (POST e now send (Form fd))) = 400 \<longleftrightarrow>
           file_size f > (if startsWith (file_type f) (lit ''video/'') then 500 * 1024 * 1024
                          else 10 * 1024 * 1024))
       \<and> (status (fst (POST e now send (Form fd))) = 400 \<longrightarrow>
           body (fst (POST e now send (Form fd))) =
             ErrorJson (if startsWith (file_type f) (lit ''video/'')
                        then lit ''File size exceeds 500MB limit''
                        else lit ''File size exceeds 10MB limit''))
       \<and> (file_size f = (if startsWith (file_type f) (lit ''video/'') then 500 * 1024 * 1024
                          else 10 * 1024 * 1024)
           \<longrightarrow> status (fst (POST e now send (Form fd))) \<noteq> 400)"
  using assms
  by (auto simp add: POST_file_entry bad_request_def isImage_def isVideo_def maxSize_def
      split: option.splits)

theorem upload_size_limit_iff_witness:
  "startsWith (lit ''image/png'') (lit ''image/'')
   \<and> status (fst (POST \<lparr>AWS_S3_API_URL = Some (lit ''https://s3.example''),
        AWS_S3_BUCKET_NAME = Some (lit ''media''), R2_PUBLIC_URL = None\<rparr> 5 (\<lambda>c. True)
      (Form [(lit ''file'', FileEntry
        \<lparr>file_name = lit ''a b.png'', file_type = lit ''image/png'',
        file_size = 10485761, file_arrayBuffer = Some [1, 2, 3]\<rparr>)]))) = 400
   \<and> body (fst (POST \<lparr>AWS_S3_API_URL = Some (lit ''https://s3.example''),
        AWS_S3_BUCKET_NAME = Some (lit ''media''), R2_PUBLIC_URL = None\<rparr> 5 (\<lambda>c. True)
      (Form [(lit ''file'', FileEntry
        \<lparr>file_name = lit ''a b.png'', file_type = lit ''image/png'',
        file_size = 10485761, file_arrayBuffer = Some [1, 2, 3]\<rparr>)]))) =
      ErrorJson (lit ''File size exceeds 10MB limit'')
   \<and> status (fst (POST \<lparr>AWS_S3_API_URL = Some (lit ''https://s3.example''),
        AWS_S3_BUCKET_NAME = Some (lit ''media''), R2_PUBLIC_URL = None\<rparr> 5 (\<lambda>c. True)
      (Form [(lit ''file'', FileEntry
        \<lparr>file_name = lit ''a b.png'', file_type = lit ''image/png'',
        file_size = 10485760, file_arrayBuffer = Some [1, 2, 3]\<rparr>)]))) \<noteq> 400"
  using upload_size_limit_iff
          [of "[(lit ''file'', FileEntry
        \<lparr>file_name = lit ''a b.png'', file_type = lit ''image/png'',
        file_size = 10485761, file_arrayBuffer = Some [1, 2, 3]\<rparr>)]"
              "\<lparr>file_name = lit ''a b.png'', file_type = lit ''image/png'',
        file_size = 10485761, file_arrayBuffer = Some [1, 2, 3]\<rparr>"
              "\<lparr>AWS_S3_API_URL = Some (lit ''https://s3.example''),
        AWS_S3_BUCKET_NAME = Some (lit ''media''), R2_PUBLIC_URL = None\<rparr>" 5 "\<lambda>c. True"]
        upload_size_limit_iff
          [of "[(lit ''file'', FileEntry
        \<lparr>file_name = lit ''a b.png'', file_type = lit ''image/png'',
        file_size = 10485760, file_arrayBuffer = Some [1, 2, 3]\<rparr>)]"
              "\<lparr>file_name = lit ''a b.png'', file_type = lit ''image/png'',
        file_size = 10485760, file_arrayBuffer = Some [1, 2, 3]\<rparr>"
              "\<lparr>AWS_S3_API_URL = Some (lit ''https://s3.example''),
        AWS_S3_BUCKET_NAME = Some (lit ''media''), R2_PUBLIC_URL = None\<rparr>" 5 "\<lambda>c. True"]
  by (simp add: formData_get_def example_types)

text \<open>
  C4. The key of the object sent to the store, which is also the \<open>fileName\<close> of the response,
  is the decimal numeral of the timestamp (after a minus sign for a timestamp below zero), a
  hyphen, and the name of the file with every code unit outside \<open>[a-zA-Z0-9.-]\<close> replaced by
  an underscore; after the timestamp prefix the key holds only letters, digits, \<open>.\<close>, \<open>-\<close>
  and \<open>_\<close>.
\<close>

theorem upload_object_key_format:
  assumes "formData_get fd (lit ''file'') = Some (FileEntry f)"
    and "Send c \<in> set (snd (POST e now send (Form fd)))"
  shows "Key c = number_toString now @ [0x2D] @
                 map (\<lambda>ch. if (0x61 \<le> ch \<and> ch \<le> 0x7A) \<or> (0x41 \<le> ch \<and> ch \<le> 0x5A) \<or> (0x30 \<le> ch \<and> ch \<le> 0x39)
                           \<or> ch = 0x2E \<or> ch = 0x2D
                           then ch else 0x5F) (file_name f)
       \<and> (if 0 \<le> now then is_decimal_of (number_toString now) (nat now)
          else hd (number_toString now) = 0x2D
               \<and> is_decimal_of (tl (number_toString now)) (nat (- now)))
       \<and> (\<forall>j. body (fst (POST e now send (Form fd))) = UploadJson j \<longrightarrow> fileName j = Key c)
       \<and> (\<forall>ch \<in> set (drop (length (number_toString now) + 1) (Key c)).
            (0x61 \<le> ch \<and> ch \<le> 0x7A) \<or> (0x41 \<le> ch \<and> ch \<le> 0x5A) \<or> (0x30 \<le> ch \<and> ch \<le> 0x39)
            \<or> ch = 0x2E \<or> ch = 0x2D \<or> ch = 0x5F)"
proof -
  let ?clean = "map (\<lambda>ch. if (0x61 \<le> ch \<and> ch \<le> 0x7A) \<or> (0x41 \<le> ch \<and> ch \<le> 0x5A) \<or> (0x30 \<le> ch \<and> ch \<le> 0x39)
                           \<or> ch = 0x2E \<or> ch = 0x2D
                           then ch else 0x5F) (file_name f)"
  have key: "Key c = make_fileName now f"
    using assms
    by (auto simp add: POST_file_entry make_command_def split: if_splits option.splits)
  have name: "\<forall>j. body (fst (POST e now send (Form fd))) = UploadJson j \<longrightarrow>
                  fileName j = make_fileName now f"
    using assms
    by (auto simp add: POST_file_entry bad_request_def split: if_splits option.splits)
  have clean: "replace_unsafe (file_name f) = ?clean"
    by (simp add: replace_unsafe_map in_class_def)
  have form: "make_fileName now f = number_toString now @ [0x2D] @ ?clean"
    by (simp only: make_fileName_def clean) (simp add: lit_def)
  have chars: "\<forall>ch \<in> set ?clean.
            (0x61 \<le> ch \<and> ch \<le> 0x7A) \<or> (0x41 \<le> ch \<and> ch \<le> 0x5A) \<or> (0x30 \<le> ch \<and> ch \<le> 0x39)
            \<or> ch = 0x2E \<or> ch = 0x2D \<or> ch = 0x5F"
    by auto
  have rest: "drop (length (number_toString now) + 1) (Key c) = ?clean"
    by (simp only: key form) simp
  from key form name have a: "Key c = number_toString now @ [0x2D] @ ?clean"
    and b: "\<forall>j. body (fst (POST e now send (Form fd))) = UploadJson j \<longrightarrow> fileName j = Key c"
    by simp_all
  from chars rest have d: "\<forall>ch \<in> set (drop (length (number_toString now) + 1) (Key c)).
            (0x61 \<le> ch \<and> ch \<le> 0x7A) \<or> (0x41 \<le> ch \<and> ch \<le> 0x5A) \<or> (0x30 \<le> ch \<and> ch \<le> 0x39)
            \<or> ch = 0x2E \<or> ch = 0x2D \<or> ch = 0x5F"
    by (simp only:)
  from a number_toString_decimal [of now] b d show ?thesis
    by (intro conjI)
qed

theorem upload_object_key_format_witness:
  "Send \<lparr>Bucket = Some (lit ''media''), Key = lit ''1793599200123-Mon_Ete_01__2_.JPG___'',
        Body = [1, 2, 3], ContentType = lit ''image/jpeg''\<rparr>
     \<in> set (snd (POST \<lparr>AWS_S3_API_URL = Some (lit ''https://s3.example''),
        AWS_S3_BUCKET_NAME = Some (lit ''media''), R2_PUBLIC_URL = None\<rparr> 1793599200123 (\<lambda>c. True)
      (Form [(lit ''file'', FileEntry
        \<lparr>file_name = lit ''Mon Ete_01 (2).JPG'' @ [0xE9, 0xD83D, 0xDE00],
        file_type = lit ''image/jpeg'', file_size = 3, file_arrayBuffer = Some [1, 2, 3]\<rparr>)])))
   \<and> lit ''1793599200123-Mon_Ete_01__2_.JPG___'' =
        lit ''1793599200123'' @ [0x2D] @ lit ''Mon_Ete_01__2_.JPG'' @ [0x5F, 0x5F, 0x5F]
   \<and> number_toString 1793599200123 = lit ''1793599200123''
   \<and> is_decimal_of (lit ''1793599200123'') 1793599200123
   \<and> drop 14 (lit ''1793599200123-Mon_Ete_01__2_.JPG___'') = lit ''Mon_Ete_01__2_.JPG___''
   \<and> Send \<lparr>Bucket = Some (lit ''media''), Key = lit ''-42-Mon_Ete_01__2_.JPG___'',
        Body = [1, 2, 3], ContentType = lit ''image/jpeg''\<rparr>
     \<in> set (snd (POST \<lparr>AWS_S3_API_URL = Some (lit ''https://s3.example''),
        AWS_S3_BUCKET_NAME = Some (lit ''media''), R2_PUBLIC_URL = None\<rparr> (- 42) (\<lambda>c. True)
      (Form [(lit ''file'', FileEntry
        \<lparr>file_name = lit ''Mon Ete_01 (2).JPG'' @ [0xE9, 0xD83D, 0xDE00],
        file_type = lit ''image/jpeg'', file_size = 3, file_arrayBuffer = Some [1, 2, 3]\<rparr>)])))
   \<and> number_toString (- 42) = lit ''-42''
   \<and> is_decimal_of (lit ''42'') 42"
proof -
  let ?e = "\<lparr>AWS_S3_API_URL = Some (lit ''https://s3.example''),
        AWS_S3_BUCKET_NAME = Some (lit ''media''), R2_PUBLIC_URL = None\<rparr>"
  let ?jpg = "\<lparr>file_name = lit ''Mon Ete_01 (2).JPG'' @ [0xE9, 0xD83D, 0xDE00],
        file_type = lit ''image/jpeg'', file_size = 3, file_arrayBuffer = Some [1, 2, 3]\<rparr>"
  let ?pos = "\<lparr>Bucket = Some (lit ''media''), Key = lit ''1793599200123-Mon_Ete_01__2_.JPG___'',
        Body = [1, 2, 3], ContentType = lit ''image/jpeg''\<rparr>"
  let ?neg = "\<lparr>Bucket = Some (lit ''media''), Key = lit ''-42-Mon_Ete_01__2_.JPG___'',
        Body = [1, 2, 3], ContentType = lit ''image/jpeg''\<rparr>"
  have get: "formData_get [(lit ''file'', FileEntry ?jpg)] (lit ''file'') = Some (FileEntry ?jpg)"
    by (simp add: formData_get_def)
  have pos: "number_toString 1793599200123 = lit ''1793599200123''"
    and neg: "number_toString (- 42) = lit ''-42''"
    by (simp_all add: number_toString_def dec_nat.simps lit_def)
  have clean: "replace_unsafe (file_name ?jpg) = lit ''Mon_Ete_01__2_.JPG___''"
    by (simp add: replace_unsafe_map in_class_def lit_def)
  have ctype: "startsWith (lit ''image/jpeg'') (lit ''image/'')"
    "\<not> startsWith (lit ''image/jpeg'') (lit ''video/'')"
    by (simp_all add: startsWith_def)
  have keys: "make_fileName 1793599200123 ?jpg = lit ''1793599200123-Mon_Ete_01__2_.JPG___''"
    "make_fileName (- 42) ?jpg = lit ''-42-Mon_Ete_01__2_.JPG___''"
    by (simp_all only: make_fileName_def pos neg clean lit_join) simp_all
  have sent_pos: "Send ?pos \<in> set (snd (POST ?e 1793599200123 (\<lambda>c. True)
                     (Form [(lit ''file'', FileEntry ?jpg)])))"
    by (simp add: POST_single_file isImage_def isVideo_def ctype maxSize_def make_command_def
        keys contentType_def)
  have sent_neg: "Send ?neg \<in> set (snd (POST ?e (- 42) (\<lambda>c. True)
                     (Form [(lit ''file'', FileEntry ?jpg)])))"
    by (simp add: POST_single_file isImage_def isVideo_def ctype maxSize_def make_command_def
        keys contentType_def)
  have dec_pos: "is_decimal_of (lit ''1793599200123'') 1793599200123"
    using upload_object_key_format [OF get sent_pos] by (simp add: pos)
  have dec_neg: "is_decimal_of (lit ''42'') 42"
    using upload_object_key_format [OF get sent_neg] by (simp add: neg lit_def)
  have split: "lit ''1793599200123-Mon_Ete_01__2_.JPG___'' =
        lit ''1793599200123'' @ [0x2D] @ lit ''Mon_Ete_01__2_.JPG'' @ [0x5F, 0x5F, 0x5F]"
    by (simp add: lit_def)
  have rest: "drop 14 (lit ''1793599200123-Mon_Ete_01__2_.JPG___'') = lit ''Mon_Ete_01__2_.JPG___''"
    by (simp add: lit_def)
  from sent_pos split pos dec_pos rest sent_neg neg dec_neg show ?thesis
    by (intro conjI)
qed

text \<open>
  C5. The content type differs from the MIME type of the file only when that MIME type is the
  empty string; a MIME type that passes the type validation is not empty, so the content type
  sent to the store is the MIME type the file reports.
\<close>

theorem upload_content_type_is_mime_type:
  "(contentType f \<noteq> file_type f \<longrightarrow> file_type f = [])
   \<and> (startsWith (file_type f) (lit ''video/'') \<or> startsWith (file_type f) (lit ''image/'')
        \<longrightarrow> file_type f \<noteq> [] \<and> contentType f = file_type f)
   \<and> (formData_get fd (lit ''file'') = Some (FileEntry f) \<and>
        Send c \<in> set (snd (POST e now send (Form fd))) \<longrightarrow> ContentType c = file_type f)"
proof -
  have a: "contentType f \<noteq> file_type f \<longrightarrow> file_type f = []"
    by (simp add: contentType_def)
  have b: "startsWith (file_type f) (lit ''video/'') \<or> startsWith (file_type f) (lit ''image/'')
        \<longrightarrow> file_type f \<noteq> [] \<and> contentType f = file_type f"
    by (auto simp add: contentType_def startsWith_def)
  have c: "formData_get fd (lit ''file'') = Some (FileEntry f) \<and>
        Send c \<in> set (snd (POST e now send (Form fd))) \<longrightarrow> ContentType c = file_type f"
    using b
    by (auto simp add: POST_file_entry make_command_def isImage_def isVideo_def
        split: if_splits option.splits)
  from a b c show ?thesis by blast
qed

theorem upload_content_type_is_mime_type_witness:
  "startsWith (lit ''image/png'') (lit ''image/'')
   \<and> contentType \<lparr>file_name = lit ''a b.png'', file_type = lit ''image/png'',
        file_size = 3, file_arrayBuffer = Some [1, 2, 3]\<rparr> = lit ''image/png''
   \<and> Send \<lparr>Bucket = Some (lit ''media''), Key = lit ''5-a_b.png'', Body = [1, 2, 3],
        ContentType = lit ''image/png''\<rparr>
       \<in> set (snd (POST \<lparr>AWS_S3_API_URL = Some (lit ''https://s3.example''),
        AWS_S3_BUCKET_NAME = Some (lit ''media''), R2_PUBLIC_URL = None\<rparr> 5 (\<lambda>c. True)
      (Form [(lit ''file'', FileEntry
        \<lparr>file_name = lit ''a b.png'', file_type = lit ''image/png'',
        file_size = 3, file_arrayBuffer = Some [1, 2, 3]\<rparr>)])))"
proof -
  let ?e = "\<lparr>AWS_S3_API_URL = Some (lit ''https://s3.example''),
        AWS_S3_BUCKET_NAME = Some (lit ''media''), R2_PUBLIC_URL = None\<rparr>"
  let ?png = "\<lparr>file_name = lit ''a b.png'', file_type = lit ''image/png'',
        file_size = 3, file_arrayBuffer = Some [1, 2, 3]\<rparr>"
  let ?c = "\<lparr>Bucket = Some (lit ''media''), Key = lit ''5-a_b.png'', Body = [1, 2, 3],
        ContentType = lit ''image/png''\<rparr>"
  have sent: "Send ?c \<in> set (snd (POST ?e 5 (\<lambda>c. True) (Form [(lit ''file'', FileEntry ?png)])))"
    by (simp add: example_png_POST)
  from upload_content_type_is_mime_type
         [of ?png "[(lit ''file'', FileEntry ?png)]" ?c ?e 5 "\<lambda>c. True"] sent
  show ?thesis
    by (simp add: example_types)
qed

text \<open>
  C6. After a successful store write the handler answers with a JSON body whose \<open>success\<close> is
  true, whose \<open>fileName\<close> is the key of the object, whose \<open>type\<close> is \<open>video\<close> for a MIME type
  that starts with \<open>video/\<close> and \<open>image\<close> otherwise, and whose \<open>url\<close> is the public URL, the
  bucket name and the file name joined by \<open>/\<close> when \<open>R2_PUBLIC_URL\<close> is set to a non-empty
  string; when \<open>R2_PUBLIC_URL\<close> is unset or empty, \<open>AWS_S3_API_URL\<close> takes the place of the public
  URL.
\<close>

theorem upload_success_response:
  assumes "formData_get fd (lit ''file'') = Some (FileEntry f)"
    and "Send c \<in> set (snd (POST e now send (Form fd)))"
    and "send c"
  shows "fst (POST e now send (Form fd)) =
     \<lparr>status = 200,
      body = UploadJson
        \<lparr>success = True,
         url = (case R2_PUBLIC_URL e of
                  Some u \<Rightarrow>
                    if u \<noteq> [] then u @ lit ''/'' @ template (AWS_S3_BUCKET_NAME e) @ lit ''/'' @ Key c
                    else template (AWS_S3_API_URL e) @ lit ''/'' @ template (AWS_S3_BUCKET_NAME e)
                           @ lit ''/'' @ Key c
                | None \<Rightarrow> template (AWS_S3_API_URL e) @ lit ''/'' @ template (AWS_S3_BUCKET_NAME e)
                           @ lit ''/'' @ Key c),
         fileName = Key c,
         type = (if startsWith (file_type f) (lit ''video/'') then lit ''video'' else lit ''image'')\<rparr>\<rparr>"
  using assms
  by (auto simp add: POST_file_entry make_command_def isVideo_def fileUrl_def template_def
      split: if_splits option.splits)

theorem upload_success_response_witness:
  "Send \<lparr>Bucket = Some (lit ''media''), Key = lit ''5-a_b.png'', Body = [1, 2, 3],
       ContentType = lit ''image/png''\<rparr>
       \<in> set (snd (POST \<lparr>AWS_S3_API_URL = Some (lit ''https://s3.example''),
       AWS_S3_BUCKET_NAME = Some (lit ''media''), R2_PUBLIC_URL = Some (lit ''https://pub.example'')\<rparr> 5 (\<lambda>c. True)
      (Form [(lit ''file'', FileEntry
        \<lparr>file_name = lit ''a b.png'', file_type = lit ''image/png'', file_size = 3,
       file_arrayBuffer = Some [1, 2, 3]\<rparr>)])))
   \<and> fst (POST \<lparr>AWS_S3_API_URL = Some (lit ''https://s3.example''),
       AWS_S3_BUCKET_NAME = Some (lit ''media''), R2_PUBLIC_URL = Some (lit ''https://pub.example'')\<rparr> 5 (\<lambda>c. True)
        (Form [(lit ''file'', FileEntry
        \<lparr>file_name = lit ''a b.png'', file_type = lit ''image/png'', file_size = 3,
       file_arrayBuffer = Some [1, 2, 3]\<rparr>)])) =
      \<lparr>status = 200,
       body = UploadJson \<lparr>success = True, url = lit ''https://pub.example/media/5-a_b.png'',
                          fileName = lit ''5-a_b.png'', type = lit ''image''\<rparr>\<rparr>"
proof -
  let ?e = "\<lparr>AWS_S3_API_URL = Some (lit ''https://s3.example''),
       AWS_S3_BUCKET_NAME = Some (lit ''media''), R2_PUBLIC_URL = Some (lit ''https://pub.example'')\<rparr>"
  let ?png = "\<lparr>file_name = lit ''a b.png'', file_type = lit ''image/png'', file_size = 3,
       file_arrayBuffer = Some [1, 2, 3]\<rparr>"
  let ?c = "\<lparr>Bucket = Some (lit ''media''), Key = lit ''5-a_b.png'', Body = [1, 2, 3],
       ContentType = lit ''image/png''\<rparr>"
  have get: "formData_get [(lit ''file'', FileEntry ?png)] (lit ''file'') = Some (FileEntry ?png)"
    by (simp add: formData_get_def)
  have sent: "Send ?c \<in> set (snd (POST ?e 5 (\<lambda>c. True) (Form [(lit ''file'', FileEntry ?png)])))"
    by (simp add: example_png_POST)
  have resolves: "(\<lambda>c. True) ?c"
    by simp
  from upload_success_response [OF get sent resolves] sent show ?thesis
    by (simp add: example_types template_def lit_join)
qed

text \<open>
  With \<open>R2_PUBLIC_URL\<close> set to the empty string the test \<open>process.env.R2_PUBLIC_URL ? ... : ...\<close>
  takes its second branch: the variable is set, and the URL is built from \<open>AWS_S3_API_URL\<close>.
\<close>

theorem upload_url_empty_public_url_counterexample:
  "R2_PUBLIC_URL \<lparr>AWS_S3_API_URL = Some (lit ''https://s3.example''),
       AWS_S3_BUCKET_NAME = Some (lit ''media''), R2_PUBLIC_URL = Some []\<rparr> \<noteq> None
   \<and> fst (POST \<lparr>AWS_S3_API_URL = Some (lit ''https://s3.example''),
       AWS_S3_BUCKET_NAME = Some (lit ''media''), R2_PUBLIC_URL = Some []\<rparr> 5 (\<lambda>c. True)
        (Form [(lit ''file'', FileEntry
        \<lparr>file_name = lit ''a b.png'', file_type = lit ''image/png'', file_size = 3,
       file_arrayBuffer = Some [1, 2, 3]\<rparr>)])) =
      \<lparr>status = 200,
       body = UploadJson \<lparr>success = True, url = lit ''https://s3.example/media/5-a_b.png'',
                          fileName = lit ''5-a_b.png'', type = lit ''image''\<rparr>\<rparr>
   \<and> lit ''https://s3.example/media/5-a_b.png'' \<noteq>
       template (R2_PUBLIC_URL \<lparr>AWS_S3_API_URL = Some (lit ''https://s3.example''),
       AWS_S3_BUCKET_NAME = Some (lit ''media''), R2_PUBLIC_URL = Some []\<rparr>)
         @ lit ''/'' @ template (AWS_S3_BUCKET_NAME \<lparr>AWS_S3_API_URL = Some (lit ''https://s3.example''),
       AWS_S3_BUCKET_NAME = Some (lit ''media''), R2_PUBLIC_URL = Some []\<rparr>)
         @ lit ''/'' @ lit ''5-a_b.png''"
  by (simp add: example_png_POST fileUrl_def template_def lit_join)

text \<open>
  C7. If a step of the \<open>try\<close> block throws, the handler answers with status 500 and the message
  \<open>Failed to upload file\<close>, and the only thing it does besides is to log the error; this
  holds in particular when the store rejects the command. No request makes the handler send
  more than one command, so nothing is retried.
\<close>

theorem upload_throw_gives_500_no_retry:
  "(\<forall>x. fst (POST_try e now send req) = Inl x \<longrightarrow>
       fst (POST e now send req) = \<lparr>status = 500, body = ErrorJson (lit ''Failed to upload file'')\<rparr>
     \<and> snd (POST e now send req) = snd (POST_try e now send req) @ [ConsoleError x])
   \<and> (\<forall>c. Send c \<in> set (snd (POST e now send req)) \<and> \<not> send c \<longrightarrow>
       fst (POST e now send req) = \<lparr>status = 500, body = ErrorJson (lit ''Failed to upload file'')\<rparr>)
   \<and> length (filter (\<lambda>x. case x of Send c \<Rightarrow> True | ConsoleError x \<Rightarrow> False)
        (snd (POST e now send req))) \<le> 1"
proof -
  have a: "\<forall>x. fst (POST_try e now send req) = Inl x \<longrightarrow>
       fst (POST e now send req) = \<lparr>status = 500, body = ErrorJson (lit ''Failed to upload file'')\<rparr>
     \<and> snd (POST e now send req) = snd (POST_try e now send req) @ [ConsoleError x]"
    by (auto simp add: POST_def split: prod.splits sum.splits)
  have b: "(\<forall>c. Send c \<in> set (snd (POST e now send req)) \<and> \<not> send c \<longrightarrow>
       fst (POST e now send req) = \<lparr>status = 500, body = ErrorJson (lit ''Failed to upload file'')\<rparr>)
   \<and> length (filter (\<lambda>x. case x of Send c \<Rightarrow> True | ConsoleError x \<Rightarrow> False)
        (snd (POST e now send req))) \<le> 1"
  proof (cases req)
    case BadBody
    then show ?thesis by (simp add: POST_BadBody)
  next
    case (Form fd)
    show ?thesis
    proof (cases "formData_get fd (lit ''file'')")
      case None
      then show ?thesis using Form by (simp add: POST_no_entry bad_request_def)
    next
      case (Some en)
      show ?thesis
      proof (cases en)
        case (StringEntry s)
        then show ?thesis using Form Some by (simp add: POST_string_entry bad_request_def)
      next
        case (FileEntry f)
        then show ?thesis using Form Some
          by (auto simp add: POST_file_entry bad_request_def split: option.splits)
      qed
    qed
  qed
  from a b show ?thesis by blast
qed

theorem upload_throw_gives_500_no_retry_witness:
  "fst (POST_try \<lparr>AWS_S3_API_URL = Some (lit ''https://s3.example''),
       AWS_S3_BUCKET_NAME = Some (lit ''media''), R2_PUBLIC_URL = None\<rparr> 5 (\<lambda>c. False)
      (Form [(lit ''file'', FileEntry
        \<lparr>file_name = lit ''a b.png'', file_type = lit ''image/png'', file_size = 3,
       file_arrayBuffer = Some [1, 2, 3]\<rparr>)])) = Inl SendError
   \<and> POST \<lparr>AWS_S3_API_URL = Some (lit ''https://s3.example''),
       AWS_S3_BUCKET_NAME = Some (lit ''media''), R2_PUBLIC_URL = None\<rparr> 5 (\<lambda>c. False)
      (Form [(lit ''file'', FileEntry
        \<lparr>file_name = lit ''a b.png'', file_type = lit ''image/png'', file_size = 3,
       file_arrayBuffer = Some [1, 2, 3]\<rparr>)]) =
     (\<lparr>status = 500, body = ErrorJson (lit ''Failed to upload file'')\<rparr>,
      [Send \<lparr>Bucket = Some (lit ''media''), Key = lit ''5-a_b.png'', Body = [1, 2, 3],
       ContentType = lit ''image/png''\<rparr>, ConsoleError SendError])"
proof -
  let ?e = "\<lparr>AWS_S3_API_URL = Some (lit ''https://s3.example''),
       AWS_S3_BUCKET_NAME = Some (lit ''media''), R2_PUBLIC_URL = None\<rparr>"
  let ?png = "\<lparr>file_name = lit ''a b.png'', file_type = lit ''image/png'', file_size = 3,
       file_arrayBuffer = Some [1, 2, 3]\<rparr>"
  let ?c = "\<lparr>Bucket = Some (lit ''media''), Key = lit ''5-a_b.png'', Body = [1, 2, 3],
       ContentType = lit ''image/png''\<rparr>"
  have thrown: "POST_try ?e 5 (\<lambda>c. False) (Form [(lit ''file'', FileEntry ?png)]) =
               (Inl SendError, [Send ?c])"
    by (simp add: POST_try_def formData_get_def isImage_def isVideo_def example_types maxSize_def
        make_command_def make_fileName_def example_key contentType_def)
  from upload_throw_gives_500_no_retry
         [of ?e 5 "\<lambda>c. False" "Form [(lit ''file'', FileEntry ?png)]"] thrown
  show ?thesis
    by (simp add: prod_eq_iff)
qed

section \<open>Properties of the pages and of the video player\<close>

text \<open>
  C8. After every mutation of the uploaded-files list (the upload page receiving a new list, an
  upload that completes, a removal in the upload component, a removal in the gallery), the
  local-storage key \<open>r2-uploaded-files\<close> holds the serialization of the current list when the
  list is not empty and is absent when it is empty; no other key is written. The upload handler
  on the server has no state for these records: its effects are the store command and the log.
\<close>

theorem uploaded_files_persisted_in_local_storage:
  "(let p' = handleUploadComplete stringify files p in
      uploadedFiles p' = files
      \<and> localStorage p' STORAGE_KEY = (if files = [] then None else Some (stringify files))
      \<and> (\<forall>k. k \<noteq> STORAGE_KEY \<longrightarrow> localStorage p' k = localStorage p k))
   \<and> (case uploadFile_done (handleUploadComplete stringify) (uploadedFile_of data f fileId) (prev, p) of
        (updated, p') \<Rightarrow>
          updated = prev @ [\<lparr>uf_id = fileId, uf_url = url data, uf_name = file_name f,
                              uf_type = uf_type (uploadedFile_of data f fileId)\<rparr>]
          \<and> uploadedFiles p' = updated
          \<and> localStorage p' STORAGE_KEY = Some (stringify updated))
   \<and> (case MultipleFileUpload_handleRemove (handleUploadComplete stringify) fileId (prev, p) of
        (updated, p') \<Rightarrow>
          updated = filter (\<lambda>x. uf_id x \<noteq> fileId) prev
          \<and> uploadedFiles p' = updated
          \<and> localStorage p' STORAGE_KEY = (if updated = [] then None else Some (stringify updated)))
   \<and> (let p' = GalleryPage_handleRemove stringify fileId p in
        uploadedFiles p' = filter (\<lambda>x. uf_id x \<noteq> fileId) (uploadedFiles p)
        \<and> localStorage p' STORAGE_KEY =
            (if uploadedFiles p' = [] then None else Some (stringify (uploadedFiles p')))
        \<and> (\<forall>k. k \<noteq> STORAGE_KEY \<longrightarrow> localStorage p' k = localStorage p k))"
proof -
  have a: "\<And>files. uploadedFiles (handleUploadComplete stringify files p) = files
      \<and> localStorage (handleUploadComplete stringify files p) STORAGE_KEY =
          (if files = [] then None else Some (stringify files))
      \<and> (\<forall>k. k \<noteq> STORAGE_KEY \<longrightarrow>
            localStorage (handleUploadComplete stringify files p) k = localStorage p k)"
    by (simp add: handleUploadComplete_def UploadPage_effect_def)
  have b: "uploadedFiles (GalleryPage_handleRemove stringify fileId p) =
             filter (\<lambda>x. uf_id x \<noteq> fileId) (uploadedFiles p)
      \<and> localStorage (GalleryPage_handleRemove stringify fileId p) STORAGE_KEY =
          (if uploadedFiles (GalleryPage_handleRemove stringify fileId p) = [] then None
           else Some (stringify (uploadedFiles (GalleryPage_handleRemove stringify fileId p))))
      \<and> (\<forall>k. k \<noteq> STORAGE_KEY \<longrightarrow>
            localStorage (GalleryPage_handleRemove stringify fileId p) k = localStorage p k)"
    by (simp add: GalleryPage_handleRemove_def Let_def)
  show ?thesis
    using a b
    by (simp add: Let_def uploadFile_done_def MultipleFileUpload_handleRemove_def uploadedFile_of_def)
qed

theorem uploaded_files_persisted_in_local_storage_witness:
  "lit ''theme'' \<noteq> STORAGE_KEY
   \<and> localStorage
        (handleUploadComplete (\<lambda>fs. concat (map uf_name fs))
           [\<lparr>uf_id = lit ''1'', uf_url = lit ''https://s3.example/media/5-a_b.png'',
              uf_name = lit ''a b.png'', uf_type = Some (lit ''image'')\<rparr>]
           \<lparr>uploadedFiles = [], localStorage = [lit ''theme'' \<mapsto> lit ''dark'']\<rparr>)
        (lit ''theme'') = Some (lit ''dark'')
   \<and> localStorage
        (handleUploadComplete (\<lambda>fs. concat (map uf_name fs))
           [\<lparr>uf_id = lit ''1'', uf_url = lit ''https://s3.example/media/5-a_b.png'',
              uf_name = lit ''a b.png'', uf_type = Some (lit ''image'')\<rparr>]
           \<lparr>uploadedFiles = [], localStorage = [lit ''theme'' \<mapsto> lit ''dark'']\<rparr>)
        STORAGE_KEY = Some (lit ''a b.png'')
   \<and> localStorage
        (GalleryPage_handleRemove (\<lambda>fs. concat (map uf_name fs)) (lit ''1'')
           \<lparr>uploadedFiles =
              [\<lparr>uf_id = lit ''1'', uf_url = lit ''https://s3.example/media/5-a_b.png'',
                 uf_name = lit ''a b.png'', uf_type = Some (lit ''image'')\<rparr>],
            localStorage = [STORAGE_KEY \<mapsto> lit ''a b.png'']\<rparr>)
        STORAGE_KEY = None"
proof -
  have other: "lit ''theme'' \<noteq> STORAGE_KEY"
    by (simp add: STORAGE_KEY_def)
  from uploaded_files_persisted_in_local_storage
    [where stringify = "\<lambda>fs. concat (map uf_name fs)"
       and files = "[\<lparr>uf_id = lit ''1'', uf_url = lit ''https://s3.example/media/5-a_b.png'',
                       uf_name = lit ''a b.png'', uf_type = Some (lit ''image'')\<rparr>]"
       and p = "\<lparr>uploadedFiles = [], localStorage = [lit ''theme'' \<mapsto> lit ''dark'']\<rparr>"
       and fileId = "lit ''1''" and prev = "[]" and f = "\<lparr>file_name = [], file_type = [],
         file_size = 0, file_arrayBuffer = None\<rparr>"
       and data = "\<lparr>success = True, url = [], fileName = [], type = []\<rparr>"]
    uploaded_files_persisted_in_local_storage
    [where stringify = "\<lambda>fs. concat (map uf_name fs)"
       and files = "[]"
       and p = "\<lparr>uploadedFiles =
              [\<lparr>uf_id = lit ''1'', uf_url = lit ''https://s3.example/media/5-a_b.png'',
                 uf_name = lit ''a b.png'', uf_type = Some (lit ''image'')\<rparr>],
            localStorage = [STORAGE_KEY \<mapsto> lit ''a b.png'']\<rparr>"
       and fileId = "lit ''1''" and prev = "[]" and f = "\<lparr>file_name = [], file_type = [],
         file_size = 0, file_arrayBuffer = None\<rparr>"
       and data = "\<lparr>success = True, url = [], fileName = [], type = []\<rparr>"]
    other
  show ?thesis
    by (simp add: Let_def)
qed

text \<open>
  C9. When the media element reports an error, through the \<open>error\<close> listener or the \<open>onError\<close>
  callback, the player records an error message and is no longer playing, and what it renders
  (the media element exists only for a non-empty \<open>url\<close>) is the fallback with a link to
  the video that opens in a new tab. Assigning a new \<open>url\<close> clears the error and the ready flag,
  and the player is rendered again with its loading overlay.
\<close>

theorem video_player_error_recovery:
  "error (handleError s) = Some (lit ''Failed to load video. Please try opening it in a new tab.'')
   \<and> \<not> isPlaying (handleError s)
   \<and> error (onError s) = Some (lit ''Failed to load video. Please try opening it in a new tab.'')
   \<and> \<not> isPlaying (onError s)
   \<and> (video_url props \<noteq> [] \<longrightarrow>
        render props (handleError s) =
          ErrorFallback (lit ''Failed to load video. Please try opening it in a new tab.'')
            (video_url props) (lit ''_blank'')
      \<and> render props (onError s) =
          ErrorFallback (lit ''Failed to load video. Please try opening it in a new tab.'')
            (video_url props) (lit ''_blank''))
   \<and> (u \<noteq> video_url props \<longrightarrow>
        (case set_url u (props, s) of
           (props', s') \<Rightarrow>
             video_url props' = u \<and> error s' = None \<and> \<not> isReady s'
             \<and> (u \<noteq> [] \<longrightarrow> render props' s' = PlayerView u True)))"
  by (simp add: handleError_def onError_def render_def set_url_def url_effect_def truthy_def)

theorem video_player_error_recovery_witness:
  "lit ''https://x.example/v.mp4'' \<noteq> []
   \<and> render \<lparr>video_url = lit ''https://x.example/v.mp4'', thumbnail = None, autoPlay = False\<rparr>
        (handleError (initial_player (0::nat) 1
           \<lparr>video_url = lit ''https://x.example/v.mp4'', thumbnail = None, autoPlay = False\<rparr>)) =
       ErrorFallback (lit ''Failed to load video. Please try opening it in a new tab.'')
         (lit ''https://x.example/v.mp4'') (lit ''_blank'')
   \<and> lit ''https://x.example/w.mp4'' \<noteq> lit ''https://x.example/v.mp4''
   \<and> (case set_url (lit ''https://x.example/w.mp4'')
          (\<lparr>video_url = lit ''https://x.example/v.mp4'', thumbnail = None, autoPlay = False\<rparr>,
           handleError (initial_player (0::nat) 1
             \<lparr>video_url = lit ''https://x.example/v.mp4'', thumbnail = None, autoPlay = False\<rparr>)) of
         (props', s') \<Rightarrow> render props' s' = PlayerView (lit ''https://x.example/w.mp4'') True)"
  using video_player_error_recovery
    [where s = "initial_player (0::nat) 1
           \<lparr>video_url = lit ''https://x.example/v.mp4'', thumbnail = None, autoPlay = False\<rparr>"
       and props = "\<lparr>video_url = lit ''https://x.example/v.mp4'', thumbnail = None, autoPlay = False\<rparr>"
       and u = "lit ''https://x.example/w.mp4''"]
    video_player_error_recovery
    [where s = "handleError (initial_player (0::nat) 1
           \<lparr>video_url = lit ''https://x.example/v.mp4'', thumbnail = None, autoPlay = False\<rparr>)"
       and props = "\<lparr>video_url = lit ''https://x.example/v.mp4'', thumbnail = None, autoPlay = False\<rparr>"
       and u = "lit ''https://x.example/w.mp4''"]
  by (simp split: prod.splits)

text \<open>
  C10. The image filter (type different from \<open>video\<close>, a missing type included) and the video
  filter (type equal to \<open>video\<close>) split every list of files into two disjoint parts that cover
  it, and the image count plus the video count is the number of files.
\<close>

theorem gallery_filters_partition:
  "set (filteredFiles FilterImage files) \<union> set (filteredFiles FilterVideo files) = set files
   \<and> set (filteredFiles FilterImage files) \<inter> set (filteredFiles FilterVideo files) = {}
   \<and> (\<forall>f \<in> set files. uf_type f = None \<longrightarrow> f \<in> set (filteredFiles FilterImage files))
   \<and> imageCount files = length (filteredFiles FilterImage files)
   \<and> videoCount files = length (filteredFiles FilterVideo files)
   \<and> imageCount files + videoCount files = length files"
proof -
  have "length (filter (\<lambda>f. uf_type f = Some (lit ''video'')) files)
        + length (filter (\<lambda>f. \<not> uf_type f = Some (lit ''video'')) files) = length files"
    by (rule sum_length_filter_compl)
  then have "imageCount files + videoCount files = length files"
    by (simp add: imageCount_def videoCount_def)
  then show ?thesis
    by (auto simp add: filteredFiles_def imageCount_def videoCount_def)
qed

theorem gallery_filters_partition_witness:
  "\<lparr>uf_id = lit ''3'', uf_url = lit ''c'', uf_name = lit ''c.gif'', uf_type = None\<rparr>
     \<in> set (filteredFiles FilterImage
         [\<lparr>uf_id = lit ''1'', uf_url = lit ''a'', uf_name = lit ''a.png'', uf_type = Some (lit ''image'')\<rparr>,
          \<lparr>uf_id = lit ''2'', uf_url = lit ''b'', uf_name = lit ''b.mp4'', uf_type = Some (lit ''video'')\<rparr>,
          \<lparr>uf_id = lit ''3'', uf_url = lit ''c'', uf_name = lit ''c.gif'', uf_type = None\<rparr>])
   \<and> imageCount
         [\<lparr>uf_id = lit ''1'', uf_url = lit ''a'', uf_name = lit ''a.png'', uf_type = Some (lit ''image'')\<rparr>,
          \<lparr>uf_id = lit ''2'', uf_url = lit ''b'', uf_name = lit ''b.mp4'', uf_type = Some (lit ''video'')\<rparr>,
          \<lparr>uf_id = lit ''3'', uf_url = lit ''c'', uf_name = lit ''c.gif'', uf_type = None\<rparr>] = 2
   \<and> videoCount
         [\<lparr>uf_id = lit ''1'', uf_url = lit ''a'', uf_name = lit ''a.png'', uf_type = Some (lit ''image'')\<rparr>,
          \<lparr>uf_id = lit ''2'', uf_url = lit ''b'', uf_name = lit ''b.mp4'', uf_type = Some (lit ''video'')\<rparr>,
          \<lparr>uf_id = lit ''3'', uf_url = lit ''c'', uf_name = lit ''c.gif'', uf_type = None\<rparr>] = 1"
proof -
  have video: "videoCount
         [\<lparr>uf_id = lit ''1'', uf_url = lit ''a'', uf_name = lit ''a.png'', uf_type = Some (lit ''image'')\<rparr>,
          \<lparr>uf_id = lit ''2'', uf_url = lit ''b'', uf_name = lit ''b.mp4'', uf_type = Some (lit ''video'')\<rparr>,
          \<lparr>uf_id = lit ''3'', uf_url = lit ''c'', uf_name = lit ''c.gif'', uf_type = None\<rparr>] = 1"
    by (simp add: videoCount_def)
  from gallery_filters_partition
    [of "[\<lparr>uf_id = lit ''1'', uf_url = lit ''a'', uf_name = lit ''a.png'', uf_type = Some (lit ''image'')\<rparr>,
          \<lparr>uf_id = lit ''2'', uf_url = lit ''b'', uf_name = lit ''b.mp4'', uf_type = Some (lit ''video'')\<rparr>,
          \<lparr>uf_id = lit ''3'', uf_url = lit ''c'', uf_name = lit ''c.gif'', uf_type = None\<rparr>]"]
    video
  show ?thesis
    by simp
qed

end
